theory Spec2Isabelle
  imports Main "HOL-Library.Sublist"
begin

section \<open>Platform values\<close>

text \<open>
  A browser \<open>File\<close>: the two properties the components read.
\<close>

record File =
  name :: string
  type :: string

text \<open>
  JavaScript values as far as \<open>JSON.parse\<close> produces them, plus \<open>undefined\<close>
  (what reading a missing property yields). Object properties are kept as an association
  list, read with \<open>map_of\<close>; numbers are kept as integers, of which the handlers only
  test whether they are zero.
\<close>

datatype jsval =
    JUndefined
  | JNull
  | JBool bool
  | JNum int
  | JStr string
  | JArr "jsval list"
  | JObj "(string \<times> jsval) list"

text \<open>The truthiness test of \<open>if (v)\<close> and \<open>v || w\<close>.\<close>

fun truthy :: "jsval \<Rightarrow> bool" where
  "truthy JUndefined = False"
| "truthy JNull = False"
| "truthy (JBool b) = b"
| "truthy (JNum n) = (n \<noteq> 0)"
| "truthy (JStr s) = (s \<noteq> [])"
| "truthy (JArr xs) = True"
| "truthy (JObj kvs) = True"

text \<open>
  Thrown values. \<open>Error m\<close> is an error object whose \<open>message\<close> is \<open>m\<close>;
  \<open>NullRead k\<close> is the \<open>TypeError\<close> of reading property \<open>k\<close> of \<open>null\<close> or
  \<open>undefined\<close>, whose message text is chosen by the engine.
\<close>

datatype js_error = Error string | NullRead string

text \<open>
  Property reads \<open>v.error\<close> and \<open>v.errors\<close>: they throw on \<open>null\<close> and
  \<open>undefined\<close>, look the key up in an object, and give \<open>undefined\<close> on
  numbers, booleans, strings and arrays (which have no property of either name).
\<close>

fun getProp :: "jsval \<Rightarrow> string \<Rightarrow> js_error + jsval" where
  "getProp JUndefined k = Inl (NullRead k)"
| "getProp JNull k = Inl (NullRead k)"
| "getProp (JObj kvs) k = Inr (case map_of kvs k of None \<Rightarrow> JUndefined | Some v \<Rightarrow> v)"
| "getProp v k = Inr JUndefined"

text \<open>
  What the code takes from the browser and from JSZip, as parameters:
  \<^item> \<open>JSON_parse\<close>: \<open>JSON.parse\<close> and \<open>response.json()\<close>; \<open>Inl m\<close> is a
    \<open>SyntaxError\<close> with message \<open>m\<close>;
  \<^item> \<open>JSZip_loadAsync\<close>: the archive decoded from the response bytes, as entry name and
    entry text; \<open>Inl m\<close> is JSZip rejecting the bytes with message \<open>m\<close>;
  \<^item> \<open>String_of\<close>: the string conversion of a value that is not a string, as
    \<open>new Error(v)\<close> applies it;
  \<^item> \<open>nullReadMessage\<close>: the engine's message for a \<open>NullRead\<close>.
\<close>

record platform =
  JSON_parse :: "string \<Rightarrow> string + jsval"
  JSZip_loadAsync :: "string \<Rightarrow> string + (string \<times> string) list"
  String_of :: "jsval \<Rightarrow> string"
  nullReadMessage :: "string \<Rightarrow> string"

text \<open>\<open>error.message\<close> of a caught value.\<close>

fun message :: "platform \<Rightarrow> js_error \<Rightarrow> string" where
  "message p (Error m) = m"
| "message p (NullRead k) = nullReadMessage p k"

text \<open>\<open>new Error(v)\<close> for a defined \<open>v\<close>: the message is \<open>v\<close> converted to a string.\<close>

fun new_Error :: "platform \<Rightarrow> jsval \<Rightarrow> js_error" where
  "new_Error p (JStr m) = Error m"
| "new_Error p v = Error (String_of p v)"

text \<open>
  \<open>name.replace(pat, rep)\<close> with a string pattern and a replacement that has no
  \<open>$\<close>: the first occurrence of \<open>pat\<close> is replaced, the rest of the string is
  kept.
\<close>

fun replace :: "string \<Rightarrow> string \<Rightarrow> string \<Rightarrow> string" where
  "replace pat rep [] = (if pat = [] then rep else [])"
| "replace pat rep (c # cs) =
     (if prefix pat (c # cs) then rep @ drop (length pat) (c # cs)
      else c # replace pat rep cs)"

section \<open>File Intake (\<open>DropZone\<close>)\<close>

text \<open>
  What a handler passes to \<open>onFileUpload\<close>: an array of files in multiple mode, and in
  single mode \<open>droppedFiles[0]\<close>, which is a file or, for an empty selection,
  \<open>undefined\<close>.
\<close>

datatype upload = Undefined | OneFile File | FileArray "File list"

text \<open>
  The component's own state. In single mode \<open>[droppedFiles[0]]\<close> holds \<open>undefined\<close> for
  an empty selection, so an entry of \<open>files\<close> is a \<open>File option\<close>.
\<close>

record DropZone =
  isDragging :: bool
  files :: "File option list"

definition DropZone_init :: DropZone where
  "DropZone_init = \<lparr>isDragging = False, files = []\<rparr>"

text \<open>\<open>xs[0]\<close> of an array.\<close>

fun first :: "'a list \<Rightarrow> 'a option" where
  "first [] = None"
| "first (x # xs) = Some x"

definition handleDrag :: "string \<Rightarrow> DropZone \<Rightarrow> DropZone" where
  "handleDrag etype z =
     (if etype = ''dragenter'' \<or> etype = ''dragover'' then z\<lparr>isDragging := True\<rparr>
      else if etype = ''dragleave'' \<or> etype = ''drop'' then z\<lparr>isDragging := False\<rparr>
      else z)"

text \<open>
  \<open>handleDrop\<close> and \<open>handleChange\<close> return the new component state and the argument
  of the one \<open>onFileUpload\<close> call they make. (Their calls on the DOM event,
  \<open>preventDefault\<close> and \<open>stopPropagation\<close>, touch neither.)
\<close>

definition handleDrop :: "bool \<Rightarrow> File list \<Rightarrow> DropZone \<Rightarrow> DropZone \<times> upload" where
  "handleDrop multiple droppedFiles z =
     (z\<lparr>isDragging := False,
        files := (if multiple then files z @ map Some droppedFiles else [first droppedFiles])\<rparr>,
      if multiple then FileArray droppedFiles
      else (case first droppedFiles of None \<Rightarrow> Undefined | Some f \<Rightarrow> OneFile f))"

definition handleChange :: "bool \<Rightarrow> File list \<Rightarrow> DropZone \<Rightarrow> DropZone \<times> upload" where
  "handleChange multiple selectedFiles z =
     (z\<lparr>files := (if multiple then files z @ map Some selectedFiles else [first selectedFiles])\<rparr>,
      if multiple then FileArray selectedFiles
      else (case first selectedFiles of None \<Rightarrow> Undefined | Some f \<Rightarrow> OneFile f))"

section \<open>Conversion Session (\<open>PDFtoXMLConverter\<close>)\<close>

datatype conversion_state = Idle | Converting | Completed

text \<open>The object URL made by \<open>createObjectURL\<close>, standing for the bytes it refers to.\<close>

datatype object_url = ObjectURL string

text \<open>
  The six \<open>useState\<close> cells. \<open>pdfFile\<close> and \<open>downloadUrl\<close> start as \<open>null\<close>
  (\<open>None\<close>); an entry of \<open>figures\<close> is \<open>undefined\<close> (\<open>None\<close>) when
  \<open>handleFigureUpload\<close> was called with \<open>undefined\<close>; \<open>validationErrors\<close> holds
  whatever value the report's \<open>errors\<close> field had.
\<close>

record session =
  articleType :: string
  pdfFile :: "File option"
  figures :: "File option list"
  conversionState :: conversion_state
  downloadUrl :: "object_url option"
  validationErrors :: jsval

definition session_init :: session where
  "session_init =
     \<lparr>articleType = ''abstract'', pdfFile = None, figures = [], conversionState = Idle,
      downloadUrl = None, validationErrors = JArr []\<rparr>"

datatype form_value = FileValue File | StringValue string

record request =
  url :: string
  http_method :: string
  body :: "(string \<times> form_value) list"

text \<open>What a handler does besides updating the state, in order.\<close>

datatype effect =
    Alert string
  | ConsoleError string js_error
  | Fetch request
  | Save object_url string

subsection \<open>\<open>handlePDFUpload\<close>\<close>

text \<open>\<open>file.type\<close>, \<open>file[0]\<close> and \<open>file[0]?.type\<close> of the handler's argument.\<close>

fun upload_type :: "upload \<Rightarrow> string option" where
  "upload_type (OneFile f) = Some (type f)"
| "upload_type u = None"

fun upload_0 :: "upload \<Rightarrow> File option" where
  "upload_0 (FileArray fs) = first fs"
| "upload_0 u = None"

definition handlePDFUpload :: "upload \<Rightarrow> session \<Rightarrow> session \<times> effect list" where
  "handlePDFUpload file s =
     (if file \<noteq> Undefined \<and>
         (upload_type file = Some ''application/pdf'' \<or>
          map_option type (upload_0 file) = Some ''application/pdf'')
      then
        let actualFile =
              (case upload_type file of
                 Some t \<Rightarrow> (if t \<noteq> [] then (case file of OneFile f \<Rightarrow> Some f | _ \<Rightarrow> None)
                            else upload_0 file)
               | None \<Rightarrow> upload_0 file)
        in (s\<lparr>pdfFile := actualFile, conversionState := Idle, downloadUrl := None,
               validationErrors := JArr []\<rparr>, [])
      else (s, [Alert ''Please upload a PDF file'']))"

subsection \<open>\<open>handleFigureUpload\<close>\<close>

definition handleFigureUpload :: "upload \<Rightarrow> session \<Rightarrow> session" where
  "handleFigureUpload fs s =
     (let imageFiles =
            (case fs of FileArray xs \<Rightarrow> map Some xs | OneFile f \<Rightarrow> [Some f]
             | Undefined \<Rightarrow> [None])
      in s\<lparr>figures := figures s @ imageFiles\<rparr>)"

subsection \<open>\<open>handleSubmit\<close>\<close>

text \<open>
  \<open>formData.append(k, v)\<close> stores a file as it is and any other value as its string, so
  an \<open>undefined\<close> figure is sent as the text \<open>undefined\<close>.
\<close>

definition formData :: "session \<Rightarrow> File \<Rightarrow> (string \<times> form_value) list" where
  "formData s pdf =
     [(''pdf'', FileValue pdf), (''articleType'', StringValue (articleType s))] @
     map (\<lambda>fig. (''figures'',
            case fig of Some f \<Rightarrow> FileValue f | None \<Rightarrow> StringValue ''undefined''))
         (figures s)"

text \<open>
  The handler up to its first \<open>await\<close>: the missing-PDF check, the form data,
  \<open>setConversionState("converting")\<close> and the one \<open>fetch\<close>.
\<close>

definition handleSubmit_begin :: "session \<Rightarrow> session \<times> effect list" where
  "handleSubmit_begin s =
     (case pdfFile s of
        None \<Rightarrow> (s, [Alert ''Please select a PDF file first''])
      | Some pdf \<Rightarrow>
          (s\<lparr>conversionState := Converting\<rparr>,
           [Fetch \<lparr>url = ''http://localhost:5000/convert'', http_method = ''POST'',
                   body = formData s pdf\<rparr>]))"

text \<open>What \<open>await fetch(...)\<close> gives: a rejection, or a response with its \<open>ok\<close> flag.\<close>

record response =
  ok :: bool
  bytes :: string

datatype fetch_result = Rejected js_error | Responded response

text \<open>
  The body of the \<open>try\<close> after the \<open>fetch\<close> has settled, on the state \<open>s\<close> current
  at that moment. \<open>Inl e\<close> is a throw of \<open>e\<close>; every throw comes before the first state
  update of this part, so a throw leaves \<open>s\<close> as it is.
\<close>

definition handleSubmit_try :: "platform \<Rightarrow> fetch_result \<Rightarrow> session \<Rightarrow> js_error + session" where
  "handleSubmit_try p r s =
     (case r of
        Rejected e \<Rightarrow> Inl e
      | Responded resp \<Rightarrow>
          if \<not> ok resp then
            (case JSON_parse p (bytes resp) of
               Inl m \<Rightarrow> Inl (Error ''Conversion failed'')
             | Inr data \<Rightarrow>
                 (case getProp data ''error'' of
                    Inl e \<Rightarrow> Inl e
                  | Inr err \<Rightarrow>
                      Inl (new_Error p (if truthy err then err else JStr ''Conversion failed''))))
          else
            (case JSZip_loadAsync p (bytes resp) of
               Inl m \<Rightarrow> Inl (Error m)
             | Inr archive \<Rightarrow>
                 (case
                    (case map_of archive ''validation_report.json'' of
                       None \<Rightarrow> Inr s
                     | Some validationContent \<Rightarrow>
                         (case JSON_parse p validationContent of
                            Inl m \<Rightarrow> Inl (Error m)
                          | Inr validationJson \<Rightarrow>
                              (case getProp validationJson ''errors'' of
                                 Inl e \<Rightarrow> Inl e
                               | Inr errs \<Rightarrow>
                                   Inr (if truthy errs then s\<lparr>validationErrors := errs\<rparr>
                                        else s))))
                  of
                    Inl e \<Rightarrow> Inl e
                  | Inr s1 \<Rightarrow>
                      Inr (s1\<lparr>downloadUrl := Some (ObjectURL (bytes resp)),
                              conversionState := Completed\<rparr>))))"

text \<open>The part of the handler that runs once the \<open>fetch\<close> has settled, with its \<open>catch\<close>.\<close>

definition handleSubmit_settle :: "platform \<Rightarrow> fetch_result \<Rightarrow> session \<Rightarrow> session \<times> effect list" where
  "handleSubmit_settle p r s =
     (case handleSubmit_try p r s of
        Inr s' \<Rightarrow> (s', [])
      | Inl e \<Rightarrow>
          (s\<lparr>conversionState := Idle\<rparr>,
           [ConsoleError ''Conversion error:'' e, Alert (''Error: '' @ message p e)]))"

text \<open>
  The whole handler when nothing else happens while the request is out: \<open>backend\<close> gives
  the outcome of the \<open>fetch\<close>.
\<close>

definition handleSubmit :: "platform \<Rightarrow> (request \<Rightarrow> fetch_result) \<Rightarrow> session \<Rightarrow> session \<times> effect list" where
  "handleSubmit p backend s =
     (case handleSubmit_begin s of
        (s1, [Fetch req]) \<Rightarrow>
          (case handleSubmit_settle p (backend req) s1 of (s2, effs) \<Rightarrow> (s2, Fetch req # effs))
      | (s1, effs) \<Rightarrow> (s1, effs))"

text \<open>
  The submit button's \<open>disabled\<close> attribute, and a press of the button: a disabled submit
  button does not submit its form, so \<open>onSubmit\<close> does not run.
\<close>

definition submit_disabled :: "session \<Rightarrow> bool" where
  "submit_disabled s = (pdfFile s = None \<or> conversionState s = Converting)"

definition submit_button :: "session \<Rightarrow> session \<times> effect list" where
  "submit_button s = (if submit_disabled s then (s, []) else handleSubmit_begin s)"

subsection \<open>\<open>handleDownload\<close>\<close>

text \<open>
  \<open>Inl\<close> is the handler throwing: with a download URL but no PDF, \<open>pdfFile.name\<close> reads a
  property of \<open>null\<close>, before any state update.
\<close>

definition download_name :: "File \<Rightarrow> string" where
  "download_name f = replace ''.pdf'' [] (name f) @ ''.zip''"

definition handleDownload :: "session \<Rightarrow> js_error + session \<times> effect list" where
  "handleDownload s =
     (case downloadUrl s of
        None \<Rightarrow> Inr (s, [])
      | Some u \<Rightarrow>
          (case pdfFile s of
             None \<Rightarrow> Inl (NullRead ''name'')
           | Some f \<Rightarrow>
               Inr (s\<lparr>conversionState := Idle, pdfFile := None, figures := [],
                       downloadUrl := None, validationErrors := JArr []\<rparr>,
                    [Save u (download_name f)])))"

text \<open>
  The success panel, which holds the Download control: it is rendered when the state is
  \<open>completed\<close> and a download URL is held, and shows the file name of the download.
  \<open>Inr None\<close> is no panel; \<open>Inl\<close> is the render throwing on \<open>pdfFile.name\<close>.
\<close>

definition success_panel :: "session \<Rightarrow> js_error + string option" where
  "success_panel s =
     (if conversionState s = Completed \<and> downloadUrl s \<noteq> None
      then (case pdfFile s of
              None \<Rightarrow> Inl (NullRead ''name'')
            | Some f \<Rightarrow> Inr (Some (download_name f)))
      else Inr None)"

subsection \<open>The wiring of the two drop targets\<close>

text \<open>
  The PDF target is a \<open>DropZone\<close> in single mode calling \<open>handlePDFUpload\<close>, the
  figure target one in multiple mode calling \<open>handleFigureUpload\<close>. Each function below
  is one user action on the pair of the target's state and the session.
\<close>

definition pdf_drop :: "File list \<Rightarrow> DropZone \<times> session \<Rightarrow> (DropZone \<times> session) \<times> effect list" where
  "pdf_drop fs zs =
     (case handleDrop False fs (fst zs) of
        (z', arg) \<Rightarrow> (case handlePDFUpload arg (snd zs) of (s', effs) \<Rightarrow> ((z', s'), effs)))"

definition pdf_change :: "File list \<Rightarrow> DropZone \<times> session \<Rightarrow> (DropZone \<times> session) \<times> effect list" where
  "pdf_change fs zs =
     (case handleChange False fs (fst zs) of
        (z', arg) \<Rightarrow> (case handlePDFUpload arg (snd zs) of (s', effs) \<Rightarrow> ((z', s'), effs)))"

definition figures_drop :: "File list \<Rightarrow> DropZone \<times> session \<Rightarrow> DropZone \<times> session" where
  "figures_drop fs zs =
     (case handleDrop True fs (fst zs) of (z', arg) \<Rightarrow> (z', handleFigureUpload arg (snd zs)))"

definition figures_change :: "File list \<Rightarrow> DropZone \<times> session \<Rightarrow> DropZone \<times> session" where
  "figures_change fs zs =
     (case handleChange True fs (fst zs) of (z', arg) \<Rightarrow> (z', handleFigureUpload arg (snd zs)))"

subsection \<open>Reading a list of effects\<close>

fun alerts :: "effect list \<Rightarrow> string list" where
  "alerts [] = []"
| "alerts (Alert m # es) = m # alerts es"
| "alerts (e # es) = alerts es"

fun requests :: "effect list \<Rightarrow> request list" where
  "requests [] = []"
| "requests (Fetch r # es) = r # requests es"
| "requests (e # es) = requests es"

section \<open>Sample inputs\<close>

definition paper :: File where
  "paper = \<lparr>name = ''paper.pdf'', type = ''application/pdf''\<rparr>"

definition draft :: File where
  "draft = \<lparr>name = ''v1.pdf.final.pdf'', type = ''application/pdf''\<rparr>"

definition scan :: File where
  "scan = \<lparr>name = ''SCAN.PDF'', type = ''application/pdf''\<rparr>"

definition memo :: File where
  "memo = \<lparr>name = ''memo.txt'', type = ''text/plain''\<rparr>"

definition figF :: File where
  "figF = \<lparr>name = ''F.png'', type = ''image/png''\<rparr>"

definition figG :: File where
  "figG = \<lparr>name = ''G.png'', type = ''image/png''\<rparr>"

definition issue :: jsval where
  "issue = JObj [(''element'', JStr ''title''), (''message'', JStr ''missing'')]"

text \<open>
  A platform that knows six JSON texts and four archives (named by made-up byte strings)
  and rejects everything else.
\<close>

definition sample_platform :: platform where
  "sample_platform =
     \<lparr>JSON_parse = (\<lambda>t.
        if t = ''{\"error\":\"bad pdf\"}'' then Inr (JObj [(''error'', JStr ''bad pdf'')])
        else if t = ''{\"errors\":[{\"element\":\"title\",\"message\":\"missing\"}]}''
          then Inr (JObj [(''errors'', JArr [issue])])
        else if t = ''{}'' then Inr (JObj [])
        else if t = ''{\"error\":\"\"}'' then Inr (JObj [(''error'', JStr [])])
        else if t = ''[]'' then Inr (JArr [])
        else if t = ''null'' then Inr JNull
        else Inl ''Unexpected end of JSON input''),
      JSZip_loadAsync = (\<lambda>b.
        if b = ''PK/report''
          then Inr [(''article.xml'', ''<article/>''),
                    (''validation_report.json'',
                     ''{\"errors\":[{\"element\":\"title\",\"message\":\"missing\"}]}'')]
        else if b = ''PK/plain'' then Inr [(''article.xml'', ''<article/>'')]
        else if b = ''PK/clean'' then Inr [(''validation_report.json'', ''{}'')]
        else if b = ''PK/broken'' then Inr [(''validation_report.json'', ''{'')]
        else Inl ''Corrupted zip: missing central directory''),
      String_of = (\<lambda>v. ''[object Object]''),
      nullReadMessage = (\<lambda>k. ''Cannot read properties of null'')\<rparr>"

definition report_ok :: response where
  "report_ok = \<lparr>ok = True, bytes = ''PK/report''\<rparr>"

definition plain_ok :: response where
  "plain_ok = \<lparr>ok = True, bytes = ''PK/plain''\<rparr>"


definition broken_ok :: response where
  "broken_ok = \<lparr>ok = True, bytes = ''PK/broken''\<rparr>"

definition junk_ok :: response where
  "junk_ok = \<lparr>ok = True, bytes = ''not a zip''\<rparr>"

definition bad_pdf_500 :: response where
  "bad_pdf_500 = \<lparr>ok = False, bytes = ''{\"error\":\"bad pdf\"}''\<rparr>"

definition empty_500 :: response where
  "empty_500 = \<lparr>ok = False, bytes = ''{}''\<rparr>"

definition html_500 :: response where
  "html_500 = \<lparr>ok = False, bytes = ''<html>Internal Server Error</html>''\<rparr>"

definition blank_500 :: response where
  "blank_500 = \<lparr>ok = False, bytes = ''{\"error\":\"\"}''\<rparr>"

definition list_500 :: response where
  "list_500 = \<lparr>ok = False, bytes = ''[]''\<rparr>"

definition null_500 :: response where
  "null_500 = \<lparr>ok = False, bytes = ''null''\<rparr>"

text \<open>
  Session states along one run: a PDF selected, the submit pressed, the conversion
  answered with a report of one issue, and the submit pressed again.
\<close>

definition with_paper :: session where
  "with_paper = fst (handlePDFUpload (OneFile paper) session_init)"

definition busy :: session where
  "busy = fst (handleSubmit_begin with_paper)"

definition done_with_issue :: session where
  "done_with_issue = fst (handleSubmit_settle sample_platform (Responded report_ok) busy)"

definition busy_again :: session where
  "busy_again = fst (handleSubmit_begin done_with_issue)"

definition done_with_draft :: session where
  "done_with_draft =
     fst (handleSubmit_settle sample_platform (Responded plain_ok)
            (fst (handleSubmit_begin (fst (handlePDFUpload (OneFile draft) session_init)))))"

section \<open>Evaluating the sample states\<close>

lemma with_paper_eq:
  "with_paper = session_init\<lparr>pdfFile := Some paper\<rparr>"
  by (simp add: with_paper_def handlePDFUpload_def session_init_def paper_def)

lemma busy_eq:
  "busy = session_init\<lparr>pdfFile := Some paper, conversionState := Converting\<rparr>"
  by (simp add: busy_def with_paper_eq handleSubmit_begin_def session_init_def)

lemma done_with_issue_eq:
  "done_with_issue =
     session_init\<lparr>pdfFile := Some paper, conversionState := Completed,
       downloadUrl := Some (ObjectURL ''PK/report''), validationErrors := JArr [issue]\<rparr>"
  by (simp add: done_with_issue_def busy_eq handleSubmit_settle_def handleSubmit_try_def
      sample_platform_def report_ok_def session_init_def)

lemma busy_again_eq:
  "busy_again =
     session_init\<lparr>pdfFile := Some paper, conversionState := Converting,
       downloadUrl := Some (ObjectURL ''PK/report''), validationErrors := JArr [issue]\<rparr>"
  by (simp add: busy_again_def done_with_issue_eq handleSubmit_begin_def session_init_def)

lemma done_with_draft_eq:
  "done_with_draft =
     session_init\<lparr>pdfFile := Some draft, conversionState := Completed,
       downloadUrl := Some (ObjectURL ''PK/plain'')\<rparr>"
  by (simp add: done_with_draft_def handlePDFUpload_def handleSubmit_begin_def
      handleSubmit_settle_def handleSubmit_try_def sample_platform_def plain_ok_def
      session_init_def draft_def)

section \<open>Properties of the File Intake\<close>

text \<open>
  Claim C8. In multiple mode a drop and a selection both append the new files, in order,
  to the end of the list the component holds, and call \<open>onFileUpload\<close> with the array
  of just the new files; \<open>handleFigureUpload\<close> appends that array to the end of the
  session's figure list. Nothing is removed or merged: after the files \<open>fs\<close> and then
  \<open>gs\<close>, both lists are the old list followed by \<open>fs\<close> and by \<open>gs\<close>, and after
  \<open>F\<close> then \<open>G\<close> the figure list ends in \<open>F, G\<close>.
\<close>

theorem multiple_mode_appends:
  "handleDrop True fs z =
     (z\<lparr>isDragging := False, files := files z @ map Some fs\<rparr>, FileArray fs) \<and>
   handleChange True fs z = (z\<lparr>files := files z @ map Some fs\<rparr>, FileArray fs) \<and>
   handleFigureUpload (FileArray fs) s = s\<lparr>figures := figures s @ map Some fs\<rparr> \<and>
   figures (snd (figures_drop gs (figures_drop fs (z, s)))) =
     figures s @ map Some fs @ map Some gs \<and>
   files (fst (figures_drop gs (figures_drop fs (z, s)))) =
     files z @ map Some fs @ map Some gs \<and>
   figures (snd (figures_change gs (figures_change fs (z, s)))) =
     figures s @ map Some fs @ map Some gs \<and>
   files (fst (figures_change gs (figures_change fs (z, s)))) =
     files z @ map Some fs @ map Some gs \<and>
   figures (snd (figures_drop [G] (figures_drop [F] (z, s)))) = figures s @ [Some F, Some G] \<and>
   figures (snd (figures_change [G] (figures_change [F] (z, s)))) = figures s @ [Some F, Some G]"
  by (simp add: handleDrop_def handleChange_def handleFigureUpload_def figures_drop_def
      figures_change_def)

section \<open>Properties of the PDF intake\<close>

text \<open>
  Claim C3. Whatever the session state was, giving \<open>handlePDFUpload\<close> a file of type
  \<open>application/pdf\<close>, or an array whose first file has that type, stores that file as the
  PDF, sets the state to \<open>idle\<close>, sets the download URL to none and empties the validation
  issues, with no alert; every other cell keeps its value. The same holds for a drop or a
  selection on the PDF target.
\<close>

theorem new_pdf_resets:
  "type f = ''application/pdf'' \<Longrightarrow>
   handlePDFUpload (OneFile f) s =
     (s\<lparr>pdfFile := Some f, conversionState := Idle, downloadUrl := None,
        validationErrors := JArr []\<rparr>, []) \<and>
   handlePDFUpload (FileArray (f # fs)) s =
     (s\<lparr>pdfFile := Some f, conversionState := Idle, downloadUrl := None,
        validationErrors := JArr []\<rparr>, []) \<and>
   snd (fst (pdf_drop (f # fs) (z, s))) =
     s\<lparr>pdfFile := Some f, conversionState := Idle, downloadUrl := None,
       validationErrors := JArr []\<rparr> \<and>
   snd (fst (pdf_change (f # fs) (z, s))) =
     s\<lparr>pdfFile := Some f, conversionState := Idle, downloadUrl := None,
       validationErrors := JArr []\<rparr>"
  by (simp add: handlePDFUpload_def pdf_drop_def pdf_change_def handleDrop_def
      handleChange_def)

theorem new_pdf_resets_witness:
  "type draft = ''application/pdf'' \<and>
   handlePDFUpload (OneFile draft) busy_again =
     (session_init\<lparr>pdfFile := Some draft\<rparr>, []) \<and>
   handlePDFUpload (FileArray [draft, memo]) done_with_issue =
     (session_init\<lparr>pdfFile := Some draft\<rparr>, [])"
proof -
  have t: "type draft = ''application/pdf''"
    by (simp add: draft_def)
  from new_pdf_resets [OF t, of busy_again "[memo]" DropZone_init]
    new_pdf_resets [OF t, of done_with_issue "[memo]" DropZone_init] t
  show ?thesis
    by (simp add: busy_again_eq done_with_issue_eq session_init_def)
qed

text \<open>
  Claim C10. Giving \<open>handlePDFUpload\<close> a file whose type is not \<open>application/pdf\<close>, or an
  array whose first file has another type, raises the alert and returns the session as it
  was: the PDF, the state, the download URL, the validation issues and the figure list all
  keep their values. The same holds for a drop or a selection on the PDF target.
\<close>

theorem non_pdf_rejected:
  "type f \<noteq> ''application/pdf'' \<Longrightarrow>
   handlePDFUpload (OneFile f) s = (s, [Alert ''Please upload a PDF file'']) \<and>
   handlePDFUpload (FileArray (f # fs)) s = (s, [Alert ''Please upload a PDF file'']) \<and>
   snd (fst (pdf_drop (f # fs) (z, s))) = s \<and>
   snd (fst (pdf_change (f # fs) (z, s))) = s"
  by (simp add: handlePDFUpload_def pdf_drop_def pdf_change_def handleDrop_def
      handleChange_def)

theorem non_pdf_rejected_witness:
  "type memo \<noteq> ''application/pdf'' \<and>
   handlePDFUpload (OneFile memo) done_with_issue =
     (done_with_issue, [Alert ''Please upload a PDF file'']) \<and>
   handlePDFUpload (FileArray [memo, paper]) done_with_issue =
     (done_with_issue, [Alert ''Please upload a PDF file''])"
proof -
  have t: "type memo \<noteq> ''application/pdf''"
    by (simp add: memo_def)
  from non_pdf_rejected [OF t, of done_with_issue "[paper]" DropZone_init] t
  show ?thesis by simp
qed

section \<open>Properties of the submit\<close>

text \<open>
  Claim C5. With no PDF selected the submit handler raises the one alert and returns: the
  session is unchanged and no request is sent, whatever the backend would have answered.
\<close>

theorem submit_without_pdf:
  "pdfFile s = None \<Longrightarrow>
   handleSubmit_begin s = (s, [Alert ''Please select a PDF file first'']) \<and>
   handleSubmit p backend s = (s, [Alert ''Please select a PDF file first'']) \<and>
   requests (snd (handleSubmit p backend s)) = []"
  by (simp add: handleSubmit_begin_def handleSubmit_def)

theorem submit_without_pdf_witness:
  "pdfFile session_init = None \<and>
   handleSubmit sample_platform (\<lambda>req. Responded report_ok) session_init =
     (session_init, [Alert ''Please select a PDF file first'']) \<and>
   requests (snd (handleSubmit sample_platform (\<lambda>req. Responded report_ok) session_init)) = []"
proof -
  have h: "pdfFile session_init = None"
    by (simp add: session_init_def)
  from submit_without_pdf [OF h, of sample_platform "\<lambda>req. Responded report_ok"] h
  show ?thesis by simp
qed

text \<open>
  Claim C1, as the code has it. The handler has no check of the state: what keeps a
  second request from being sent while the state is \<open>converting\<close> is the submit button,
  which is disabled then, so that pressing it does not run the handler, sends nothing and
  leaves the session as it is.
\<close>

theorem submit_button_disabled_while_converting:
  "conversionState s = Converting \<Longrightarrow> submit_disabled s \<and> submit_button s = (s, [])"
  by (simp add: submit_disabled_def submit_button_def)

theorem submit_button_disabled_while_converting_witness:
  "conversionState busy = Converting \<and> submit_disabled busy \<and> submit_button busy = (busy, [])"
proof -
  have c: "conversionState busy = Converting"
    by (simp add: busy_eq)
  from submit_button_disabled_while_converting [OF c] c show ?thesis by simp
qed

text \<open>
  Claim C1 as stated fails on the handler: run on the session \<open>busy\<close>, whose state is
  \<open>converting\<close> and whose PDF is selected, \<open>handleSubmit\<close> does not abort but sends
  the request again.
\<close>

theorem handler_resends_while_converting:
  "conversionState busy = Converting \<and>
   handleSubmit_begin busy =
     (busy,
      [Fetch \<lparr>url = ''http://localhost:5000/convert'', http_method = ''POST'',
              body = [(''pdf'', FileValue paper), (''articleType'', StringValue ''abstract'')]\<rparr>])"
  by (simp add: busy_eq handleSubmit_begin_def formData_def session_init_def)

text \<open>
  The button does not bound the requests that are out either: selecting a PDF while the
  state is \<open>converting\<close> sets the state to \<open>idle\<close>, which enables the button, and the
  next press sends a second request before the first has been answered.
\<close>

lemma reselect_enables_second_request:
  "requests (snd (submit_button with_paper)) =
     [\<lparr>url = ''http://localhost:5000/convert'', http_method = ''POST'',
       body = [(''pdf'', FileValue paper), (''articleType'', StringValue ''abstract'')]\<rparr>] \<and>
   fst (submit_button with_paper) = busy \<and>
   \<not> submit_disabled (fst (handlePDFUpload (OneFile draft) busy)) \<and>
   requests (snd (submit_button (fst (handlePDFUpload (OneFile draft) busy)))) =
     [\<lparr>url = ''http://localhost:5000/convert'', http_method = ''POST'',
       body = [(''pdf'', FileValue draft), (''articleType'', StringValue ''abstract'')]\<rparr>]"
  by (simp add: busy_eq with_paper_eq submit_button_def submit_disabled_def
      handleSubmit_begin_def handlePDFUpload_def formData_def session_init_def
      draft_def)

section \<open>Properties of the answer to a submit\<close>

lemma settle_throw:
  "handleSubmit_try p r s = Inl e \<Longrightarrow>
   handleSubmit_settle p r s =
     (s\<lparr>conversionState := Idle\<rparr>,
      [ConsoleError ''Conversion error:'' e, Alert (''Error: '' @ message p e)])"
  by (simp add: handleSubmit_settle_def)

lemma settle_return:
  "handleSubmit_try p r s = Inr s' \<Longrightarrow> handleSubmit_settle p r s = (s', [])"
  by (simp add: handleSubmit_settle_def)

lemma try_not_ok:
  "\<not> ok resp \<Longrightarrow>
   handleSubmit_try p (Responded resp) s =
     (case JSON_parse p (bytes resp) of
        Inl m \<Rightarrow> Inl (Error ''Conversion failed'')
      | Inr data \<Rightarrow>
          (case getProp data ''error'' of
             Inl e \<Rightarrow> Inl e
           | Inr err \<Rightarrow>
               Inl (new_Error p (if truthy err then err else JStr ''Conversion failed''))))"
  by (simp add: handleSubmit_try_def)

lemma try_not_ok_throws:
  "\<not> ok resp \<Longrightarrow> \<exists>e. handleSubmit_try p (Responded resp) s = Inl e"
  by (simp add: try_not_ok split: sum.splits)

lemma settle_not_ok:
  assumes "\<not> ok resp"
  shows "fst (handleSubmit_settle p (Responded resp) s) = s\<lparr>conversionState := Idle\<rparr>"
    and "length (alerts (snd (handleSubmit_settle p (Responded resp) s))) = 1"
    and "requests (snd (handleSubmit_settle p (Responded resp) s)) = []"
proof -
  from try_not_ok_throws [OF assms] obtain e
    where e: "handleSubmit_try p (Responded resp) s = Inl e" by blast
  show "fst (handleSubmit_settle p (Responded resp) s) = s\<lparr>conversionState := Idle\<rparr>"
    and "length (alerts (snd (handleSubmit_settle p (Responded resp) s))) = 1"
    and "requests (snd (handleSubmit_settle p (Responded resp) s)) = []"
    by (simp_all add: settle_throw [OF e])
qed

lemma settle_not_ok_unparsed:
  "\<not> ok resp \<Longrightarrow> JSON_parse p (bytes resp) = Inl m \<Longrightarrow>
   alerts (snd (handleSubmit_settle p (Responded resp) s)) = [''Error: Conversion failed'']"
  by (simp add: handleSubmit_settle_def try_not_ok)

lemma settle_not_ok_error_field:
  "\<not> ok resp \<Longrightarrow> JSON_parse p (bytes resp) = Inr (JObj kvs) \<Longrightarrow>
   map_of kvs ''error'' = Some (JStr msg) \<Longrightarrow> msg \<noteq> [] \<Longrightarrow>
   alerts (snd (handleSubmit_settle p (Responded resp) s)) = [''Error: '' @ msg]"
  by (simp add: handleSubmit_settle_def try_not_ok)

lemma settle_not_ok_no_error_field:
  "\<not> ok resp \<Longrightarrow> JSON_parse p (bytes resp) = Inr (JObj kvs) \<Longrightarrow>
   map_of kvs ''error'' = None \<Longrightarrow>
   alerts (snd (handleSubmit_settle p (Responded resp) s)) = [''Error: Conversion failed'']"
  by (simp add: handleSubmit_settle_def try_not_ok)

lemma settle_not_ok_falsy_error_field:
  "\<not> ok resp \<Longrightarrow> JSON_parse p (bytes resp) = Inr (JObj kvs) \<Longrightarrow>
   map_of kvs ''error'' = Some err \<Longrightarrow> \<not> truthy err \<Longrightarrow>
   alerts (snd (handleSubmit_settle p (Responded resp) s)) = [''Error: Conversion failed'']"
  by (simp add: handleSubmit_settle_def try_not_ok)

lemma getProp_no_object:
  "v \<noteq> JNull \<Longrightarrow> v \<noteq> JUndefined \<Longrightarrow> \<forall>kvs. v \<noteq> JObj kvs \<Longrightarrow> getProp v k = Inr JUndefined"
  by (cases v) simp_all

lemma settle_not_ok_no_object:
  "\<not> ok resp \<Longrightarrow> JSON_parse p (bytes resp) = Inr v \<Longrightarrow>
   v \<noteq> JNull \<Longrightarrow> v \<noteq> JUndefined \<Longrightarrow> \<forall>kvs. v \<noteq> JObj kvs \<Longrightarrow>
   alerts (snd (handleSubmit_settle p (Responded resp) s)) = [''Error: Conversion failed'']"
  by (simp add: handleSubmit_settle_def try_not_ok getProp_no_object)

lemma settle_not_ok_prefix:
  assumes "\<not> ok resp"
  shows "\<exists>e. snd (handleSubmit_settle p (Responded resp) s) =
           [ConsoleError ''Conversion error:'' e, Alert (''Error: '' @ message p e)]"
proof -
  from try_not_ok_throws [OF assms] obtain e
    where e: "handleSubmit_try p (Responded resp) s = Inl e" by blast
  show ?thesis
    by (simp add: settle_throw [OF e])
qed

text \<open>
  Claim C4, as the code has it. After a response that is not OK the state is \<open>idle\<close> and
  every other cell, the download URL among them, keeps its value; no request is sent;
  the caught error is logged and exactly one alert is raised, whose text is \<open>Error: \<close>
  followed by that error's message. The message is \<open>Conversion failed\<close> when the body
  does not parse as JSON, when it parses to an array, a string, a number or a boolean, when
  it is an object with no \<open>error\<close> field, and when it is an object whose \<open>error\<close>
  field is falsy (the empty string among them); it is the \<open>error\<close> field when the body
  is an object whose \<open>error\<close> field is a string that is not empty.
\<close>

theorem failure_response_alert:
  "\<not> ok resp \<Longrightarrow>
   fst (handleSubmit_settle p (Responded resp) s) = s\<lparr>conversionState := Idle\<rparr> \<and>
   length (alerts (snd (handleSubmit_settle p (Responded resp) s))) = 1 \<and>
   requests (snd (handleSubmit_settle p (Responded resp) s)) = [] \<and>
   (\<exists>e. snd (handleSubmit_settle p (Responded resp) s) =
          [ConsoleError ''Conversion error:'' e, Alert (''Error: '' @ message p e)]) \<and>
   (JSON_parse p (bytes resp) = Inl m \<longrightarrow>
      alerts (snd (handleSubmit_settle p (Responded resp) s)) = [''Error: Conversion failed'']) \<and>
   (JSON_parse p (bytes resp) = Inr (JObj kvs) \<and> map_of kvs ''error'' = Some (JStr msg) \<and>
    msg \<noteq> [] \<longrightarrow>
      alerts (snd (handleSubmit_settle p (Responded resp) s)) = [''Error: '' @ msg]) \<and>
   (JSON_parse p (bytes resp) = Inr (JObj kvs) \<and> map_of kvs ''error'' = None \<longrightarrow>
      alerts (snd (handleSubmit_settle p (Responded resp) s)) = [''Error: Conversion failed'']) \<and>
   (JSON_parse p (bytes resp) = Inr (JObj kvs) \<and> map_of kvs ''error'' = Some err \<and>
    \<not> truthy err \<longrightarrow>
      alerts (snd (handleSubmit_settle p (Responded resp) s)) = [''Error: Conversion failed'']) \<and>
   (JSON_parse p (bytes resp) = Inr v \<and> v \<noteq> JNull \<and> v \<noteq> JUndefined \<and>
    (\<forall>kvs. v \<noteq> JObj kvs) \<longrightarrow>
      alerts (snd (handleSubmit_settle p (Responded resp) s)) = [''Error: Conversion failed''])"
  using settle_not_ok [of resp p s] settle_not_ok_prefix [of resp p s]
    settle_not_ok_unparsed [of resp p m s]
    settle_not_ok_error_field [of resp p kvs msg s] settle_not_ok_no_error_field [of resp p kvs s]
    settle_not_ok_falsy_error_field [of resp p kvs err s] settle_not_ok_no_object [of resp p v s]
  by blast

theorem failure_response_alert_witness:
  "\<not> ok bad_pdf_500 \<and> \<not> ok html_500 \<and> \<not> ok empty_500 \<and> \<not> ok blank_500 \<and> \<not> ok list_500 \<and>
   handleSubmit_settle sample_platform (Responded bad_pdf_500) busy =
     (with_paper,
      [ConsoleError ''Conversion error:'' (Error ''bad pdf''), Alert ''Error: bad pdf'']) \<and>
   alerts (snd (handleSubmit_settle sample_platform (Responded bad_pdf_500) busy)) =
     [''Error: bad pdf''] \<and>
   alerts (snd (handleSubmit_settle sample_platform (Responded html_500) busy)) =
     [''Error: Conversion failed''] \<and>
   alerts (snd (handleSubmit_settle sample_platform (Responded empty_500) busy)) =
     [''Error: Conversion failed''] \<and>
   alerts (snd (handleSubmit_settle sample_platform (Responded blank_500) busy)) =
     [''Error: Conversion failed''] \<and>
   alerts (snd (handleSubmit_settle sample_platform (Responded list_500) busy)) =
     [''Error: Conversion failed''] \<and>
   fst (handleSubmit_settle sample_platform (Responded html_500) busy) = with_paper \<and>
   downloadUrl (fst (handleSubmit_settle sample_platform (Responded bad_pdf_500) busy)) = None"
proof -
  have nok: "\<not> ok bad_pdf_500" "\<not> ok html_500" "\<not> ok empty_500" "\<not> ok blank_500"
    "\<not> ok list_500"
    by (simp_all add: bad_pdf_500_def html_500_def empty_500_def blank_500_def list_500_def)
  have parsed:
    "JSON_parse sample_platform (bytes bad_pdf_500) = Inr (JObj [(''error'', JStr ''bad pdf'')])"
    "JSON_parse sample_platform (bytes html_500) = Inl ''Unexpected end of JSON input''"
    "JSON_parse sample_platform (bytes empty_500) = Inr (JObj [])"
    "JSON_parse sample_platform (bytes blank_500) = Inr (JObj [(''error'', JStr [])])"
    "JSON_parse sample_platform (bytes list_500) = Inr (JArr [])"
    by (simp_all add: sample_platform_def bad_pdf_500_def html_500_def empty_500_def
        blank_500_def list_500_def)
  have idle: "busy\<lparr>conversionState := Idle\<rparr> = with_paper"
    by (simp add: busy_eq with_paper_eq session_init_def)
  have whole:
    "handleSubmit_settle sample_platform (Responded bad_pdf_500) busy =
       (with_paper,
        [ConsoleError ''Conversion error:'' (Error ''bad pdf''), Alert ''Error: bad pdf''])"
    by (simp add: handleSubmit_settle_def try_not_ok nok parsed idle)
  from failure_response_alert
      [OF nok(1), where p = sample_platform and s = busy and kvs = "[(''error'', JStr ''bad pdf'')]"
        and msg = "''bad pdf''"]
  have a: "alerts (snd (handleSubmit_settle sample_platform (Responded bad_pdf_500) busy)) =
             [''Error: bad pdf'']"
    and d: "fst (handleSubmit_settle sample_platform (Responded bad_pdf_500) busy) =
             busy\<lparr>conversionState := Idle\<rparr>"
    using parsed(1) by simp_all
  from failure_response_alert
      [OF nok(2), where p = sample_platform and s = busy
        and m = "''Unexpected end of JSON input''"]
  have b: "alerts (snd (handleSubmit_settle sample_platform (Responded html_500) busy)) =
             [''Error: Conversion failed'']"
    and f: "fst (handleSubmit_settle sample_platform (Responded html_500) busy) =
             busy\<lparr>conversionState := Idle\<rparr>"
    using parsed(2) by simp_all
  from failure_response_alert
      [OF nok(3), where p = sample_platform and s = busy and kvs = "[]"]
  have c: "alerts (snd (handleSubmit_settle sample_platform (Responded empty_500) busy)) =
             [''Error: Conversion failed'']"
    using parsed(3) by simp
  from failure_response_alert
      [OF nok(4), where p = sample_platform and s = busy and kvs = "[(''error'', JStr [])]"
        and err = "JStr []"]
  have g: "alerts (snd (handleSubmit_settle sample_platform (Responded blank_500) busy)) =
             [''Error: Conversion failed'']"
    using parsed(4) by simp
  from failure_response_alert
      [OF nok(5), where p = sample_platform and s = busy and v = "JArr []"]
  have h: "alerts (snd (handleSubmit_settle sample_platform (Responded list_500) busy)) =
             [''Error: Conversion failed'']"
    using parsed(5) by simp
  from a b c d f g h nok whole idle show ?thesis
    by (simp add: with_paper_eq session_init_def)
qed

text \<open>
  Claim C4 as stated fails. For the response of status 500 with body
  \<open>{"error":"bad pdf"}\<close> the alert reads \<open>Error: bad pdf\<close>, not \<open>bad pdf\<close>; and for
  the body \<open>null\<close>, which parses as JSON and has no \<open>error\<close> field, the handler throws
  on reading \<open>data.error\<close>, so that the alert carries the engine's message for that
  \<open>TypeError\<close> and not \<open>Conversion failed\<close>.
\<close>

theorem failure_message_counterexample:
  "alerts (snd (handleSubmit_settle sample_platform (Responded bad_pdf_500) busy)) =
     [''Error: bad pdf''] \<and>
   alerts (snd (handleSubmit_settle sample_platform (Responded bad_pdf_500) busy)) \<noteq>
     [''bad pdf''] \<and>
   JSON_parse sample_platform (bytes null_500) = Inr JNull \<and>
   handleSubmit_try sample_platform (Responded null_500) busy = Inl (NullRead ''error'') \<and>
   alerts (snd (handleSubmit_settle sample_platform (Responded null_500) busy)) =
     [''Error: Cannot read properties of null''] \<and>
   alerts (snd (handleSubmit_settle sample_platform (Responded null_500) busy)) \<noteq>
     [''Error: Conversion failed'']"
  by (simp add: handleSubmit_settle_def handleSubmit_try_def sample_platform_def
      bad_pdf_500_def null_500_def)

lemma try_ok:
  "ok resp \<Longrightarrow>
   handleSubmit_try p (Responded resp) s =
     (case JSZip_loadAsync p (bytes resp) of
        Inl m \<Rightarrow> Inl (Error m)
      | Inr archive \<Rightarrow>
          (case
             (case map_of archive ''validation_report.json'' of
                None \<Rightarrow> Inr s
              | Some validationContent \<Rightarrow>
                  (case JSON_parse p validationContent of
                     Inl m \<Rightarrow> Inl (Error m)
                   | Inr validationJson \<Rightarrow>
                       (case getProp validationJson ''errors'' of
                          Inl e \<Rightarrow> Inl e
                        | Inr errs \<Rightarrow>
                            Inr (if truthy errs then s\<lparr>validationErrors := errs\<rparr> else s))))
           of
             Inl e \<Rightarrow> Inl e
           | Inr s1 \<Rightarrow>
               Inr (s1\<lparr>downloadUrl := Some (ObjectURL (bytes resp)),
                       conversionState := Completed\<rparr>)))"
  by (simp add: handleSubmit_try_def)







text \<open>
  Claim C9. After an OK response, when JSZip rejects the bytes, or when the archive has a
  \<open>validation_report.json\<close> entry whose text \<open>JSON.parse\<close> rejects, the throw is
  caught by the handler's one \<open>catch\<close>: the error is logged, its message is shown in
  an alert, the state becomes \<open>idle\<close>, and every other cell, the download URL among them,
  keeps its value.
\<close>

theorem malformed_archive_caught:
  "ok resp \<Longrightarrow>
   JSZip_loadAsync p (bytes resp) = Inl m \<or>
   (JSZip_loadAsync p (bytes resp) = Inr archive \<and>
    map_of archive ''validation_report.json'' = Some content \<and> JSON_parse p content = Inl m) \<Longrightarrow>
   handleSubmit_settle p (Responded resp) s =
     (s\<lparr>conversionState := Idle\<rparr>,
      [ConsoleError ''Conversion error:'' (Error m), Alert (''Error: '' @ m)]) \<and>
   downloadUrl (fst (handleSubmit_settle p (Responded resp) s)) = downloadUrl s"
  by (auto simp add: handleSubmit_settle_def try_ok)

theorem malformed_archive_caught_witness:
  "ok junk_ok \<and> ok broken_ok \<and>
   JSZip_loadAsync sample_platform (bytes junk_ok) =
     Inl ''Corrupted zip: missing central directory'' \<and>
   JSZip_loadAsync sample_platform (bytes broken_ok) = Inr [(''validation_report.json'', ''{'')] \<and>
   JSON_parse sample_platform ''{'' = Inl ''Unexpected end of JSON input'' \<and>
   handleSubmit_settle sample_platform (Responded junk_ok) busy =
     (with_paper,
      [ConsoleError ''Conversion error:'' (Error ''Corrupted zip: missing central directory''),
       Alert ''Error: Corrupted zip: missing central directory'']) \<and>
   handleSubmit_settle sample_platform (Responded broken_ok) busy =
     (with_paper,
      [ConsoleError ''Conversion error:'' (Error ''Unexpected end of JSON input''),
       Alert ''Error: Unexpected end of JSON input''])"
proof -
  have oks: "ok junk_ok" "ok broken_ok"
    by (simp_all add: junk_ok_def broken_ok_def)
  have junk:
    "JSZip_loadAsync sample_platform (bytes junk_ok) =
       Inl ''Corrupted zip: missing central directory''"
    by (simp add: sample_platform_def junk_ok_def)
  have broken:
    "JSZip_loadAsync sample_platform (bytes broken_ok) = Inr [(''validation_report.json'', ''{'')]"
    "JSON_parse sample_platform ''{'' = Inl ''Unexpected end of JSON input''"
    by (simp_all add: sample_platform_def broken_ok_def)
  have idle: "busy\<lparr>conversionState := Idle\<rparr> = with_paper"
    by (simp add: busy_eq with_paper_eq session_init_def)
  have h1:
    "JSZip_loadAsync sample_platform (bytes junk_ok) =
       Inl ''Corrupted zip: missing central directory'' \<or>
     (JSZip_loadAsync sample_platform (bytes junk_ok) = Inr [] \<and>
      map_of [] ''validation_report.json'' = Some '''' \<and>
      JSON_parse sample_platform '''' = Inl ''Corrupted zip: missing central directory'')"
    using junk by simp
  have h2:
    "JSZip_loadAsync sample_platform (bytes broken_ok) = Inl ''Unexpected end of JSON input'' \<or>
     (JSZip_loadAsync sample_platform (bytes broken_ok) = Inr [(''validation_report.json'', ''{'')] \<and>
      map_of [(''validation_report.json'', ''{'')] ''validation_report.json'' = Some ''{'' \<and>
      JSON_parse sample_platform ''{'' = Inl ''Unexpected end of JSON input'')"
    using broken by simp
  from malformed_archive_caught [OF oks(1) h1, of busy]
    malformed_archive_caught [OF oks(2) h2, of busy] oks junk broken idle
  show ?thesis by simp
qed

section \<open>Properties of the download\<close>

text \<open>
  The Download control is on screen exactly in the states of the theorem below: state
  \<open>completed\<close>, a download URL held, a PDF selected.
\<close>

lemma success_panel_shown:
  "(\<exists>n. success_panel s = Inr (Some n)) \<longleftrightarrow>
   conversionState s = Completed \<and> (\<exists>u. downloadUrl s = Some u) \<and> (\<exists>f. pdfFile s = Some f)"
  by (auto simp add: success_panel_def split: option.splits)

text \<open>
  Claim C6. In the \<open>completed\<close> state, holding a download URL and the PDF, the download
  handler saves the artifact and then leaves the session as it was at the start but for
  the article type: state \<open>idle\<close>, no PDF, no figures, no download URL, no validation
  issues. A submit on that session only raises the missing-PDF alert: it sends nothing and
  changes nothing, and the submit button is disabled.
\<close>

theorem download_resets:
  "conversionState s = Completed \<Longrightarrow> downloadUrl s = Some u \<Longrightarrow> pdfFile s = Some f \<Longrightarrow>
   handleDownload s =
     Inr (session_init\<lparr>articleType := articleType s\<rparr>, [Save u (download_name f)]) \<and>
   session_init\<lparr>articleType := articleType s\<rparr> =
     \<lparr>articleType = articleType s, pdfFile = None, figures = [], conversionState = Idle,
      downloadUrl = None, validationErrors = JArr []\<rparr> \<and>
   handleSubmit p backend (session_init\<lparr>articleType := articleType s\<rparr>) =
     (session_init\<lparr>articleType := articleType s\<rparr>, [Alert ''Please select a PDF file first'']) \<and>
   submit_button (session_init\<lparr>articleType := articleType s\<rparr>) =
     (session_init\<lparr>articleType := articleType s\<rparr>, [])"
  by (cases s)
    (simp add: handleDownload_def handleSubmit_def handleSubmit_begin_def submit_button_def
      submit_disabled_def session_init_def)

theorem download_resets_witness:
  "conversionState done_with_issue = Completed \<and>
   downloadUrl done_with_issue = Some (ObjectURL ''PK/report'') \<and>
   pdfFile done_with_issue = Some paper \<and>
   handleDownload done_with_issue =
     Inr (session_init, [Save (ObjectURL ''PK/report'') ''paper.zip'']) \<and>
   handleSubmit sample_platform (\<lambda>req. Responded report_ok) session_init =
     (session_init, [Alert ''Please select a PDF file first''])"
proof -
  have h: "conversionState done_with_issue = Completed"
    "downloadUrl done_with_issue = Some (ObjectURL ''PK/report'')"
    "pdfFile done_with_issue = Some paper"
    by (simp_all add: done_with_issue_eq)
  have a: "session_init\<lparr>articleType := articleType done_with_issue\<rparr> = session_init"
    by (simp add: done_with_issue_eq session_init_def)
  have n: "download_name paper = ''paper.zip''"
    by (simp add: download_name_def paper_def)
  from download_resets [OF h, of sample_platform "\<lambda>req. Responded report_ok"] h a n
  show ?thesis by simp
qed

text \<open>
  The file name of the download. When the part of the name before a final \<open>.pdf\<close> has no
  dot, the name is that part followed by \<open>.zip\<close>.
\<close>

lemma replace_pdf_suffix:
  "CHR ''.'' \<notin> set stem \<Longrightarrow> replace ''.pdf'' [] (stem @ ''.pdf'') = stem"
  by (induction stem) auto

lemma download_name_plain_stem:
  "CHR ''.'' \<notin> set stem \<Longrightarrow> name f = stem @ ''.pdf'' \<Longrightarrow> download_name f = stem @ ''.zip''"
  by (simp add: download_name_def replace_pdf_suffix)

text \<open>
  Claim C7 fails on the code. \<open>replace\<close> removes the first \<open>.pdf\<close> of the name, wherever
  it stands, and removes nothing when the name has no \<open>.pdf\<close> in lower case: the PDF
  named \<open>v1.pdf.final.pdf\<close> is saved as \<open>v1.final.pdf.zip\<close>, where its name with the
  extension replaced is \<open>v1.pdf.final.zip\<close>, and the PDF named \<open>SCAN.PDF\<close> is saved
  as \<open>SCAN.PDF.zip\<close>.
\<close>

theorem download_name_first_occurrence:
  "name draft = ''v1.pdf.final.pdf'' \<and>
   download_name draft = ''v1.final.pdf.zip'' \<and>
   download_name draft \<noteq> ''v1.pdf.final.zip'' \<and>
   handleDownload done_with_draft =
     Inr (session_init, [Save (ObjectURL ''PK/plain'') ''v1.final.pdf.zip'']) \<and>
   download_name scan = ''SCAN.PDF.zip''"
  by (simp add: download_name_def draft_def scan_def handleDownload_def done_with_draft_eq
      session_init_def)

end
